theory Spec2Isabelle
  imports Complex_Main "HOL-Library.Sublist" "HOL-Library.Log_Nat"
begin

section \<open>Thrown values and their classification\<close>

text \<open>
  A JavaScript \<open>throw\<close> can raise any value. The code only ever asks two things of a
  caught value: whether it is an \<open>Error\<close> instance, and, if so, what its \<open>message\<close> is.
  \<open>Error m\<close> is an Error object with message \<open>m\<close>; \<open>NonError v\<close> is any other thrown
  value (a string, a number, a plain object), \<open>v\<close> standing for its contents.
\<close>

datatype thrown = Error (message: string) | NonError string

text \<open>\<open>String.prototype.includes\<close>: the pattern occurs as a contiguous substring.\<close>

fun includesStr :: "string \<Rightarrow> string \<Rightarrow> bool" where
  "includesStr [] p = (p = [])"
| "includesStr (c # cs) p = (prefix p (c # cs) \<or> includesStr cs p)"

text \<open>
  The test of lines 35-36 of \<open>retryWithBackoff\<close> (and, for Error instances, of line 115):
  \<open>error instanceof Error && (error.message.includes('503') ||
  error.message.includes('overloaded'))\<close>. A thrown value that passes is Transient, every
  other one is Permanent.
\<close>

fun transient :: "thrown \<Rightarrow> bool" where
  "transient (Error m) = (includesStr m ''503'' \<or> includesStr m ''overloaded'')"
| "transient (NonError v) = False"

section \<open>JavaScript numbers\<close>

text \<open>
  A JavaScript Number is an IEEE 754 double: a finite value, one of the two infinities,
  or NaN. The finite doubles are the reals \<open>m * 2^e\<close> with \<open>\<bar>m\<bar> < 2^53\<close> and
  \<open>-1074 \<le> e \<le> 971\<close>; the two zeros are not told apart.
\<close>

datatype number = Finite real | PosInfinity | NegInfinity | NaN

text \<open>The nearest integer, a tie going to the even one.\<close>

definition roundTiesToEven :: "real \<Rightarrow> int" where
  "roundTiesToEven q =
     (let n = \<lfloor>q\<rfloor>; d = q - of_int n
      in if d < 1 / 2 then n else if 1 / 2 < d then n + 1 else if even n then n else n + 1)"

text \<open>
  The nearest real of the form \<open>m * 2^e\<close> with \<open>\<bar>m\<bar> \<le> 2^53\<close> and \<open>-1074 \<le> e\<close>, ties to
  even. In units of \<open>2^-1074\<close> the value \<open>X\<close> has \<open>bitlen \<lfloor>\<bar>X\<bar>\<rfloor>\<close> binary digits before the
  point; all but the leading 53 of them are rounded away (none, for a subnormal).
\<close>

definition roundToDouble :: "real \<Rightarrow> real" where
  "roundToDouble x =
     (let X = x * 2 ^ 1074; e = nat (bitlen \<lfloor>\<bar>X\<bar>\<rfloor> - 53)
      in of_int (roundTiesToEven (X / 2 ^ e)) * 2 ^ e / 2 ^ 1074)"

text \<open>
  The Number for an exact real result (round to nearest, ties to even): a result that
  rounds to \<open>2^1024\<close> or beyond in magnitude is an infinity.
\<close>

definition fl :: "real \<Rightarrow> number" where
  "fl x =
     (let y = roundToDouble x
      in if 2 ^ 1024 \<le> y then PosInfinity
         else if y \<le> - (2 ^ 1024) then NegInfinity
         else Finite y)"

text \<open>\<open>Math.pow(2, n)\<close> for a counter \<open>n\<close>: exact up to \<open>2^1023\<close>, \<open>Infinity\<close> from there on.\<close>

definition Math_pow2 :: "nat \<Rightarrow> number" where
  "Math_pow2 n = (if n < 1024 then Finite (2 ^ n) else PosInfinity)"

text \<open>An infinity times the finite \<open>a\<close>, by the sign of \<open>a\<close>; \<open>0 * Infinity\<close> is NaN.\<close>

definition infinity_times :: "real \<Rightarrow> number" where
  "infinity_times a = (if a = 0 then NaN else if 0 < a then PosInfinity else NegInfinity)"

text \<open>The operators \<open>*\<close> and \<open>+\<close> on Numbers.\<close>

fun multiply :: "number \<Rightarrow> number \<Rightarrow> number" where
  "multiply NaN y = NaN"
| "multiply x NaN = NaN"
| "multiply (Finite a) (Finite b) = fl (a * b)"
| "multiply (Finite a) PosInfinity = infinity_times a"
| "multiply (Finite a) NegInfinity = infinity_times (- a)"
| "multiply PosInfinity (Finite b) = infinity_times b"
| "multiply NegInfinity (Finite b) = infinity_times (- b)"
| "multiply PosInfinity PosInfinity = PosInfinity"
| "multiply PosInfinity NegInfinity = NegInfinity"
| "multiply NegInfinity PosInfinity = NegInfinity"
| "multiply NegInfinity NegInfinity = PosInfinity"

fun add :: "number \<Rightarrow> number \<Rightarrow> number" where
  "add NaN y = NaN"
| "add x NaN = NaN"
| "add (Finite a) (Finite b) = fl (a + b)"
| "add (Finite a) PosInfinity = PosInfinity"
| "add (Finite a) NegInfinity = NegInfinity"
| "add PosInfinity (Finite b) = PosInfinity"
| "add NegInfinity (Finite b) = NegInfinity"
| "add PosInfinity PosInfinity = PosInfinity"
| "add PosInfinity NegInfinity = NaN"
| "add NegInfinity PosInfinity = NaN"
| "add NegInfinity NegInfinity = NegInfinity"

section \<open>The Backoff Retrier\<close>

text \<open>
  What a run of the retrier does, in order: \<open>Attempt i\<close> is the call of \<open>operation()\<close>
  made while \<open>retries = i\<close>, \<open>Wait d\<close> is \<open>await delay(d)\<close>.
\<close>

datatype step = Attempt nat | Wait number

record 'a run =
  outcome :: "thrown + 'a"
  trace :: "step list"

text \<open>
  \<open>initialDelay * Math.pow(2, retries) + Math.random() * 1000\<close> in double arithmetic:
  each product and the sum is rounded. \<open>initialDelay\<close> is the finite double passed as
  the argument and \<open>r\<close> is the double that \<open>Math.random()\<close> returned.
\<close>

definition waitTime :: "real \<Rightarrow> nat \<Rightarrow> real \<Rightarrow> number" where
  "waitTime initialDelay retries r =
     add (multiply (Finite initialDelay) (Math_pow2 retries))
         (multiply (Finite r) (Finite 1000))"

definition RetriesExhausted :: thrown where
  "RetriesExhausted =
     Error ''Maximum retries reached. The service is currently unavailable. Please try again later.''"

text \<open>
  The \<open>while (retries < maxRetries)\<close> loop. Every pass calls the operation once and only
  the transient branch (\<open>retries++; continue\<close>) reaches another pass, so the pass with
  counter \<open>retries\<close> makes the call number \<open>retries\<close> of this run: \<open>operation i\<close> is what
  that call does (\<open>Inl\<close> the value it throws, \<open>Inr\<close> the value it resolves to), and
  \<open>random i\<close> is the value of \<open>Math.random()\<close> drawn in that pass. \<open>tr\<close> is the
  trace so far.
\<close>

function retry_loop ::
  "(nat \<Rightarrow> thrown + 'a) \<Rightarrow> (nat \<Rightarrow> real) \<Rightarrow> int \<Rightarrow> real \<Rightarrow> nat \<Rightarrow> step list \<Rightarrow> 'a run" where
  "retry_loop operation random maxRetries initialDelay retries tr =
     (if int retries < maxRetries then
        (case operation retries of
           Inr v \<Rightarrow> \<lparr>outcome = Inr v, trace = tr @ [Attempt retries]\<rparr>
         | Inl error \<Rightarrow>
             if transient error then
               retry_loop operation random maxRetries initialDelay (Suc retries)
                 (tr @ [Attempt retries, Wait (waitTime initialDelay retries (random retries))])
             else \<lparr>outcome = Inl error, trace = tr @ [Attempt retries]\<rparr>)
      else \<lparr>outcome = Inl RetriesExhausted, trace = tr\<rparr>)"
  by pat_completeness auto
termination
  by (relation "measure (\<lambda>(operation, random, maxRetries, initialDelay, retries, tr).
        nat (maxRetries - int retries))") auto

declare retry_loop.simps [simp del]

definition retryWithBackoff ::
  "(nat \<Rightarrow> thrown + 'a) \<Rightarrow> (nat \<Rightarrow> real) \<Rightarrow> int \<Rightarrow> real \<Rightarrow> 'a run" where
  "retryWithBackoff operation random maxRetries initialDelay =
     retry_loop operation random maxRetries initialDelay 0 []"

text \<open>The number of calls of the operation in a trace, and the delays in order.\<close>

fun attempts :: "step list \<Rightarrow> nat" where
  "attempts [] = 0"
| "attempts (Attempt i # tr) = Suc (attempts tr)"
| "attempts (Wait d # tr) = attempts tr"

fun delays :: "step list \<Rightarrow> number list" where
  "delays [] = []"
| "delays (Attempt i # tr) = delays tr"
| "delays (Wait d # tr) = d # delays tr"

text \<open>The trace of \<open>k\<close> transient failures in a row from counter \<open>i\<close> on.\<close>

definition failed_rounds :: "(nat \<Rightarrow> real) \<Rightarrow> real \<Rightarrow> nat \<Rightarrow> nat \<Rightarrow> step list" where
  "failed_rounds random initialDelay i k =
     concat (map (\<lambda>j. [Attempt j, Wait (waitTime initialDelay j (random j))]) [i..<i + k])"

section \<open>The Binary Encoder\<close>

text \<open>
  \<open>s.split(',')\<close> with a one-character separator: the pieces between the separators, in
  order. The result is never empty (\<open>''.split(',')\<close> is \<open>['']\<close>), so a character that
  is not the separator always has a first piece of the rest to join; the \<open>[]\<close> branch
  of the \<open>case\<close> is never taken.
\<close>

fun split :: "string \<Rightarrow> char \<Rightarrow> string list" where
  "split [] sep = [[]]"
| "split (c # cs) sep =
     (if c = sep then [] # split cs sep
      else (case split cs sep of
              p # ps \<Rightarrow> (c # p) # ps
            | [] \<Rightarrow> [[c]]))"

text \<open>
  A \<open>Blob\<close> as the code observes it: its \<open>type\<close>, and what
  \<open>FileReader.readAsDataURL\<close> makes of it: \<open>Some s\<close> when the read ends with
  \<open>reader.result = s\<close>, \<open>None\<close> when it fails and \<open>onerror\<close> fires.
\<close>

record blob =
  type :: string
  readAsDataURL :: "string option"

text \<open>
  \<open>blobToBase64\<close>: the promise rejects (\<open>Inl\<close>) or resolves (\<open>Inr\<close>).
  \<open>base64String.split(',')[1]\<close> is \<open>undefined\<close> when there is no second piece, and
  \<open>!base64WithoutPrefix\<close> holds for \<open>undefined\<close> and for the empty string.
\<close>

definition blobToBase64 :: "blob \<Rightarrow> thrown + string" where
  "blobToBase64 b =
     (case readAsDataURL b of
        None \<Rightarrow> Inl (Error ''Failed to read image file'')
      | Some base64String \<Rightarrow>
          (case split base64String CHR '','' of
             p0 # base64WithoutPrefix # ps \<Rightarrow>
               if base64WithoutPrefix = [] then Inl (Error ''Failed to convert image to base64'')
               else Inr base64WithoutPrefix
           | _ \<Rightarrow> Inl (Error ''Failed to convert image to base64'')))"

section \<open>The Analysis Orchestrator\<close>

text \<open>The parts of a model request: \<open>{text}\<close> and \<open>{inlineData: {mimeType, data}}\<close>.\<close>

datatype part = Text string | InlineData (mimeType: string) (data: string)

text \<open>The \<open>Response\<close> of \<open>fetch\<close>: \<open>ok\<close>, and what \<open>response.blob()\<close> does.\<close>

record response =
  ok :: bool
  blob :: "thrown + blob"

text \<open>
  The collaborators of one call of \<open>analyzeXrayImage\<close>:
  \<^item> \<open>fetch env url\<close>: the promise of \<open>fetch(url)\<close> rejects or resolves to a response;
  \<^item> \<open>generateContent env parts i\<close>: what the call number \<open>i\<close> of
    \<open>model.generateContent(parts)\<close> does: it throws (\<open>Inl\<close>), or it gives a result whose
    \<open>response\<close> is falsy (\<open>Inr None\<close>) or a response whose \<open>text()\<close> throws or returns
    (\<open>Inr (Some t)\<close>);
  \<^item> \<open>math_random env i\<close>: the value of the \<open>Math.random()\<close> drawn after failure \<open>i\<close>.
\<close>

record env =
  fetch :: "string \<Rightarrow> thrown + response"
  generateContent :: "part list \<Rightarrow> nat \<Rightarrow> thrown + (thrown + string) option"
  math_random :: "nat \<Rightarrow> real"

text \<open>What a call of \<open>analyzeXrayImage\<close> does to the outside, in order.\<close>

datatype effect = Fetch string | Generate "part list" | Sleep number

fun effect_of :: "part list \<Rightarrow> step \<Rightarrow> effect" where
  "effect_of parts (Attempt i) = Generate parts"
| "effect_of parts (Wait d) = Sleep d"

text \<open>
  The closure \<open>generateContent\<close> that both branches hand to the retrier; the two differ
  in the parts only.
\<close>

definition callModel :: "env \<Rightarrow> part list \<Rightarrow> nat \<Rightarrow> thrown + string" where
  "callModel env parts i =
     (case generateContent env parts i of
        Inl error \<Rightarrow> Inl error
      | Inr None \<Rightarrow> Inl (Error ''No response from Gemini API'')
      | Inr (Some response_text) \<Rightarrow> response_text)"

text \<open>
  \<open>retryWithBackoff(generateContent)\<close>, with the default \<open>maxRetries = 5\<close> and
  \<open>initialDelay = 2000\<close>.
\<close>

definition retried :: "env \<Rightarrow> part list \<Rightarrow> (thrown + string) \<times> effect list" where
  "retried env parts =
     (let r = retryWithBackoff (callModel env parts) (math_random env) 5 2000
      in (outcome r, map (effect_of parts) (trace r)))"

text \<open>Lines 82-88.\<close>

definition languagePrompt :: "string \<Rightarrow> string" where
  "languagePrompt language =
     (if language = ''hindi'' then ''Provide the analysis in Hindi language.''
      else if language = ''marathi'' then ''Provide the analysis in Marathi language.''
      else [])"

definition textOnlyParts :: "string \<Rightarrow> string \<Rightarrow> part list" where
  "textOnlyParts prompt language =
     [Text (''You are a medical professional. '' @ prompt @ '' Provide the response in ''
            @ language @ '' language.'')]"

definition imageParts :: "string \<Rightarrow> string \<Rightarrow> blob \<Rightarrow> string \<Rightarrow> part list" where
  "imageParts prompt language imageBlob base64Image =
     [Text (''You are a medical professional analyzing an X-ray image. Please provide a detailed analysis based on the following prompt: ''
            @ prompt @ ''. '' @ languagePrompt language),
      InlineData (type imageBlob) base64Image]"

text \<open>
  The body of the \<open>try\<close> of \<open>analyzeXrayImage\<close>: what it throws or returns, and its
  effects. \<open>!imageUrl\<close> holds for the empty string.
\<close>

definition analyzeXrayImage_try ::
  "env \<Rightarrow> string \<Rightarrow> string \<Rightarrow> string \<Rightarrow> (thrown + string) \<times> effect list" where
  "analyzeXrayImage_try env imageUrl prompt language =
     (if imageUrl = [] \<and> language \<noteq> ''english'' then
        retried env (textOnlyParts prompt language)
      else
        (case fetch env imageUrl of
           Inl error \<Rightarrow> (Inl error, [Fetch imageUrl])
         | Inr response \<Rightarrow>
             if \<not> ok response then (Inl (Error ''Failed to fetch image''), [Fetch imageUrl])
             else
               (case blob response of
                  Inl error \<Rightarrow> (Inl error, [Fetch imageUrl])
                | Inr imageBlob \<Rightarrow>
                    (case blobToBase64 imageBlob of
                       Inl error \<Rightarrow> (Inl error, [Fetch imageUrl])
                     | Inr base64Image \<Rightarrow>
                         (let (res, effs) =
                                retried env (imageParts prompt language imageBlob base64Image)
                          in (res, Fetch imageUrl # effs))))))"

text \<open>The \<open>catch\<close> of \<open>analyzeXrayImage\<close>: the value it throws for the value it caught.\<close>

fun analyzeXrayImage_catch :: "thrown \<Rightarrow> thrown" where
  "analyzeXrayImage_catch (Error m) =
     (if includesStr m ''503'' \<or> includesStr m ''overloaded'' then
        Error ''The AI service is temporarily unavailable. We tried multiple times but the service is experiencing high load. Please try again in a few minutes.''
      else Error m)"
| "analyzeXrayImage_catch (NonError v) =
     Error ''An unexpected error occurred while analyzing the image''"

definition analyzeXrayImage ::
  "env \<Rightarrow> string \<Rightarrow> string \<Rightarrow> string \<Rightarrow> (thrown + string) \<times> effect list" where
  "analyzeXrayImage env imageUrl prompt language =
     (case analyzeXrayImage_try env imageUrl prompt language of
        (Inl error, effs) \<Rightarrow> (Inl (analyzeXrayImage_catch error), effs)
      | (Inr text, effs) \<Rightarrow> (Inr text, effs))"

section \<open>Example inputs\<close>

text \<open>An operation that throws a transient error on its first \<open>k\<close> calls and then resolves.\<close>

definition flaky :: "nat \<Rightarrow> nat \<Rightarrow> thrown + string" where
  "flaky k i = (if i < k then Inl (Error ''503 Service Unavailable'') else Inr ''fine'')"

text \<open>An operation whose first call throws an error that is not transient.\<close>

definition denied :: "nat \<Rightarrow> thrown + string" where
  "denied i = (if i = 0 then Inl (Error ''API key not valid'') else Inr ''fine'')"

text \<open>A \<open>Math.random()\<close> that always returns the double next below \<open>1\<close>.\<close>

definition almost_one :: "nat \<Rightarrow> real" where
  "almost_one i = 1 - 1 / 2 ^ 53"

text \<open>A PNG blob that reads as the data URL \<open>s\<close>, and a blob whose read fails.\<close>

definition png_blob :: "string \<Rightarrow> blob" where
  "png_blob s = \<lparr>type = ''image/png'', readAsDataURL = Some s\<rparr>"

definition unreadable_blob :: blob where
  "unreadable_blob = \<lparr>type = ''image/png'', readAsDataURL = None\<rparr>"

text \<open>
  An environment where \<open>blob:xray\<close> fetches a small PNG and every other URL answers
  with a status that is not a success, and the model answers at once; and the same
  environment with a model that is overloaded on every call.
\<close>

definition sample_blob :: blob where
  "sample_blob = png_blob ''data:image/png;base64,iVBORw0KGgo=''"

definition sample_env :: env where
  "sample_env =
     \<lparr>fetch = (\<lambda>url. if url = ''blob:xray'' then Inr \<lparr>ok = True, blob = Inr sample_blob\<rparr>
                   else Inr \<lparr>ok = False, blob = Inr sample_blob\<rparr>),
      generateContent = (\<lambda>parts i. Inr (Some (Inr ''No fracture is visible.''))),
      math_random = (\<lambda>i. 1 / 2)\<rparr>"

definition overloaded_env :: env where
  "overloaded_env =
     sample_env\<lparr>generateContent :=
       (\<lambda>parts i. Inl (Error ''[503 Service Unavailable] The model is overloaded.''))\<rparr>"

section \<open>Properties of the number model\<close>

lemma roundTiesToEven_of_int [simp]: "roundTiesToEven (of_int k) = k"
  by (simp add: roundTiesToEven_def)

lemma roundTiesToEven_bounds: "\<lfloor>q\<rfloor> \<le> roundTiesToEven q \<and> roundTiesToEven q \<le> \<lfloor>q\<rfloor> + 1"
  by (simp add: roundTiesToEven_def Let_def)

lemma roundTiesToEven_mono:
  assumes "q \<le> q'"
  shows "roundTiesToEven q \<le> roundTiesToEven q'"
proof (cases "\<lfloor>q\<rfloor> = \<lfloor>q'\<rfloor>")
  case True
  with assms show ?thesis
    by (auto simp: roundTiesToEven_def Let_def)
next
  case False
  with assms have "\<lfloor>q\<rfloor> + 1 \<le> \<lfloor>q'\<rfloor>"
    using floor_mono [of q q'] by linarith
  then show ?thesis
    using roundTiesToEven_bounds [of q] roundTiesToEven_bounds [of q'] by linarith
qed

lemma roundTiesToEven_le: "q \<le> of_int k \<Longrightarrow> roundTiesToEven q \<le> k"
  using roundTiesToEven_mono [of q "of_int k"] by simp

lemma roundTiesToEven_ge: "of_int k \<le> q \<Longrightarrow> k \<le> roundTiesToEven q"
  using roundTiesToEven_mono [of "of_int k" q] by simp

lemma bitlen_mono: "a \<le> b \<Longrightarrow> bitlen a \<le> bitlen b"
  by (simp add: bitlen_def floorlog_mono)

text \<open>The scaled value lies below the top of its binade.\<close>

lemma scaled_upper:
  assumes "0 \<le> X" and "e = nat (bitlen \<lfloor>X\<rfloor> - 53)"
  shows "X < 2 ^ (e + 53)"
proof -
  have "bitlen \<lfloor>X\<rfloor> \<le> int (e + 53)"
    using assms(2) by simp
  then have "\<lfloor>X\<rfloor> < 2 ^ nat (int (e + 53))"
    by (simp only: bitlen_le_iff_power)
  then have "\<lfloor>X\<rfloor> < 2 ^ (e + 53)"
    by (simp only: nat_int)
  then have "X < of_int (2 ^ (e + 53))"
    by (simp only: floor_less_iff)
  then show ?thesis
    by simp
qed

lemma scaled_lower:
  assumes "0 \<le> X" and "e = nat (bitlen \<lfloor>X\<rfloor> - 53)" and "0 < e"
  shows "2 ^ (e + 52) \<le> X"
proof -
  have "int (e + 53) \<le> bitlen \<lfloor>X\<rfloor>"
    using assms(2,3) by simp
  then have "int (e + 53) \<le> 0 \<or> 2 ^ (nat (int (e + 53)) - 1) \<le> \<lfloor>X\<rfloor>"
    by (simp only: bitlen_ge_iff_power)
  then have "2 ^ (e + 53 - 1) \<le> \<lfloor>X\<rfloor>"
    by (simp only: nat_int) simp
  then have "(2::int) ^ (e + 52) \<le> \<lfloor>X\<rfloor>"
    by (simp add: add.commute)
  then have "of_int (2 ^ (e + 52)) \<le> X"
    by (simp only: le_floor_iff)
  then show ?thesis
    by simp
qed

lemma roundToDouble_mono:
  assumes "0 \<le> x" and "x \<le> y"
  shows "roundToDouble x \<le> roundToDouble y"
proof -
  define X where "X = x * 2 ^ 1074"
  define Y where "Y = y * 2 ^ 1074"
  define ex where "ex = nat (bitlen \<lfloor>X\<rfloor> - 53)"
  define ey where "ey = nat (bitlen \<lfloor>Y\<rfloor> - 53)"
  have X0: "0 \<le> X" and XY: "X \<le> Y"
    using assms by (simp_all add: X_def Y_def)
  then have Y0: "0 \<le> Y"
    by simp
  have rx: "roundToDouble x = of_int (roundTiesToEven (X / 2 ^ ex)) * 2 ^ ex / 2 ^ 1074"
    using X0 by (simp add: roundToDouble_def X_def ex_def Let_def)
  have ry: "roundToDouble y = of_int (roundTiesToEven (Y / 2 ^ ey)) * 2 ^ ey / 2 ^ 1074"
    using Y0 by (simp add: roundToDouble_def Y_def ey_def Let_def)
  have "\<lfloor>X\<rfloor> \<le> \<lfloor>Y\<rfloor>"
    using XY by (rule floor_mono)
  then have exy: "ex \<le> ey"
    unfolding ex_def ey_def using bitlen_mono [of "\<lfloor>X\<rfloor>" "\<lfloor>Y\<rfloor>"] by simp
  have "real_of_int (roundTiesToEven (X / 2 ^ ex)) * 2 ^ ex
      \<le> real_of_int (roundTiesToEven (Y / 2 ^ ey)) * 2 ^ ey"
  proof (cases "ex = ey")
    case True
    have "X / 2 ^ ey \<le> Y / 2 ^ ey"
      using XY by (simp add: divide_right_mono)
    then have "roundTiesToEven (X / 2 ^ ey) \<le> roundTiesToEven (Y / 2 ^ ey)"
      by (rule roundTiesToEven_mono)
    then show ?thesis
      by (simp add: True)
  next
    case False
    with exy have lt: "ex < ey"
      by simp
    have "X < 2 ^ (ex + 53)"
      using X0 ex_def by (rule scaled_upper)
    then have "X / 2 ^ ex \<le> of_int (2 ^ 53)"
      by (simp add: power_add field_simps)
    then have "roundTiesToEven (X / 2 ^ ex) \<le> 2 ^ 53"
      by (rule roundTiesToEven_le)
    then have "real_of_int (roundTiesToEven (X / 2 ^ ex)) \<le> 2 ^ 53"
      by (metis of_int_le_iff of_int_numeral of_int_power)
    then have a: "real_of_int (roundTiesToEven (X / 2 ^ ex)) * 2 ^ ex \<le> 2 ^ 53 * 2 ^ ex"
      by (simp add: mult_right_mono)
    have "2 ^ (ey + 52) \<le> Y"
      using Y0 ey_def lt by (intro scaled_lower) simp_all
    then have "of_int (2 ^ 52) \<le> Y / 2 ^ ey"
      by (simp add: power_add field_simps)
    then have "2 ^ 52 \<le> roundTiesToEven (Y / 2 ^ ey)"
      by (rule roundTiesToEven_ge)
    then have "2 ^ 52 \<le> real_of_int (roundTiesToEven (Y / 2 ^ ey))"
      by (metis of_int_le_iff of_int_numeral of_int_power)
    then have b: "2 ^ 52 * 2 ^ ey \<le> real_of_int (roundTiesToEven (Y / 2 ^ ey)) * 2 ^ ey"
      by (simp add: mult_right_mono)
    have "(2::real) ^ (53 + ex) \<le> 2 ^ (52 + ey)"
      using lt by (intro power_increasing) simp_all
    then have "(2::real) ^ 53 * 2 ^ ex \<le> 2 ^ 52 * 2 ^ ey"
      by (simp only: power_add)
    with a b show ?thesis
      by linarith
  qed
  then show ?thesis
    by (simp add: rx ry divide_right_mono)
qed

lemma roundToDouble_0 [simp]: "roundToDouble 0 = 0"
  by (simp add: roundToDouble_def roundTiesToEven_def)

text \<open>A number with at most 53 significant bits is a double: rounding leaves it alone.\<close>

lemma roundToDouble_exact:
  assumes "0 < m" and "m < 2 ^ 53"
  shows "roundToDouble (of_int m * 2 ^ k / 2 ^ 1074) = of_int m * 2 ^ k / 2 ^ 1074"
proof -
  define e where "e = nat (bitlen m + int k - 53)"
  have "bitlen m \<le> 53"
    using assms(2) bitlen_le_iff_power [of m 53] by simp
  then have ek: "e \<le> k"
    by (simp add: e_def)
  have split: "(2::real) ^ k = 2 ^ (k - e) * 2 ^ e"
    using ek by (simp flip: power_add)
  have sc: "real_of_int m * 2 ^ k / 2 ^ 1074 * 2 ^ 1074 = of_int (m * 2 ^ k)"
    by simp
  have ab: "\<bar>real_of_int (m * 2 ^ k)\<bar> = of_int (m * 2 ^ k)"
    using assms(1) by simp
  have bl: "bitlen (m * 2 ^ k) = bitlen m + int k"
    using assms(1) by simp
  have q: "real_of_int (m * 2 ^ k) / 2 ^ e = of_int (m * 2 ^ (k - e))"
    by (simp add: split)
  have "roundToDouble (of_int m * 2 ^ k / 2 ^ 1074) =
      of_int (roundTiesToEven (real_of_int (m * 2 ^ k) / 2 ^ e)) * 2 ^ e / 2 ^ 1074"
    by (simp only: roundToDouble_def Let_def sc ab floor_of_int bl e_def)
  also have "\<dots> = of_int (m * 2 ^ (k - e)) * 2 ^ e / 2 ^ 1074"
    by (simp only: q roundTiesToEven_of_int)
  also have "\<dots> = of_int m * 2 ^ k / 2 ^ 1074"
    by (simp add: split)
  finally show ?thesis .
qed

lemma roundToDouble_of_nat:
  assumes "real n < 2 ^ 53"
  shows "roundToDouble (real n) = real n"
proof (cases "n = 0")
  case True
  then show ?thesis by simp
next
  case False
  have "int n < 2 ^ 53"
    using assms by (metis of_int_less_iff of_int_numeral of_int_of_nat_eq of_int_power)
  with False have "roundToDouble (of_int (int n) * 2 ^ 1074 / 2 ^ 1074) =
      of_int (int n) * 2 ^ 1074 / 2 ^ 1074"
    by (intro roundToDouble_exact) simp_all
  then show ?thesis
    by simp
qed


lemma fl_exact:
  assumes "roundToDouble x = x" and "0 \<le> x" and "x < 2 ^ 1024"
  shows "fl x = Finite x"
  using assms by (simp add: fl_def)

lemma fl_between:
  assumes "0 \<le> lo" and "lo \<le> x" and "x \<le> hi"
    and "roundToDouble lo = lo" and "roundToDouble hi = hi" and "hi < 2 ^ 1024"
  shows "\<exists>w. fl x = Finite w \<and> lo \<le> w \<and> w \<le> hi"
proof -
  have a: "lo \<le> roundToDouble x"
    using roundToDouble_mono [of lo x] assms(1,2,4) by simp
  have b: "roundToDouble x \<le> hi"
    using roundToDouble_mono [of x hi] assms(1,2,3,5) by simp
  have "fl x = Finite (roundToDouble x)"
    using a b assms(1,6) by (simp add: fl_def)
  with a b show ?thesis
    by blast
qed

lemma below_2_53: "x < 2 ^ 53 \<Longrightarrow> x < (2::real) ^ 1024"
proof -
  have "(2::real) ^ 53 \<le> 2 ^ 1024"
    by (intro power_increasing) simp_all
  then show "x < 2 ^ 53 \<Longrightarrow> x < (2::real) ^ 1024"
    by linarith
qed

lemma waitTime_bounds:
  assumes "0 \<le> r" and "r < 1" and "i < 1024" and "real n * 2 ^ i + 1000 < 2 ^ 53"
  shows "\<exists>w. waitTime (real n) i r = Finite w \<and> real n * 2 ^ i \<le> w \<and> w \<le> real n * 2 ^ i + 1000"
proof -
  define B where "B = real (n * 2 ^ i)"
  have B: "B = real n * 2 ^ i"
    by (simp add: B_def)
  have B0: "0 \<le> B"
    by (simp add: B_def)
  have Bhi: "B + 1000 = real (n * 2 ^ i + 1000)"
    by (simp add: B_def)
  have small: "B + 1000 < 2 ^ 53"
    using assms(4) by (simp add: B)
  have rB: "roundToDouble B = B"
    unfolding B_def using small B_def by (intro roundToDouble_of_nat) linarith
  have rBhi: "roundToDouble (B + 1000) = B + 1000"
    unfolding Bhi using small Bhi by (intro roundToDouble_of_nat) linarith
  have r1000: "roundToDouble 1000 = 1000"
    using roundToDouble_of_nat [of 1000] by simp
  have base: "multiply (Finite (real n)) (Math_pow2 i) = Finite B"
  proof -
    have "fl B = Finite B"
      using rB B0 small by (intro fl_exact below_2_53) linarith+
    then show ?thesis
      using assms(3) by (simp add: Math_pow2_def B)
  qed
  obtain j where j: "fl (r * 1000) = Finite j" "0 \<le> j" "j \<le> 1000"
  proof -
    have "\<exists>w. fl (r * 1000) = Finite w \<and> 0 \<le> w \<and> w \<le> 1000"
      using assms(1,2) r1000 by (intro fl_between below_2_53) simp_all
    with that show ?thesis
      by blast
  qed
  have "\<exists>w. fl (B + j) = Finite w \<and> B \<le> w \<and> w \<le> B + 1000"
    using B0 j(2,3) rB rBhi small by (intro fl_between below_2_53) simp_all
  then show ?thesis
    by (simp add: waitTime_def base j(1) B)
qed

lemma roundToDouble_normal:
  assumes "2 ^ k \<le> x" and "x < 2 ^ (k + 1)"
  shows "roundToDouble x = of_int (roundTiesToEven (x * 2 ^ 52 / 2 ^ k)) * 2 ^ k / 2 ^ 52"
proof -
  define X where "X = x * 2 ^ 1074"
  have x0: "0 \<le> x"
    using assms(1) by (meson order_trans zero_le_numeral zero_le_power)
  then have X0: "0 \<le> X"
    by (simp add: X_def)
  have lo: "2 ^ (k + 1074) \<le> X"
    using assms(1) by (simp add: X_def power_add)
  have hi: "X < 2 ^ (k + 1075)"
  proof -
    have "x * 2 ^ 1074 < 2 ^ (k + 1) * 2 ^ 1074"
      using assms(2) by simp
    then show ?thesis
      by (simp add: X_def power_add)
  qed
  have "of_int (2 ^ (k + 1074)) \<le> X"
    using lo by simp
  then have flo: "2 ^ (k + 1074) \<le> \<lfloor>X\<rfloor>"
    by (simp only: le_floor_iff)
  have "X < of_int (2 ^ (k + 1075))"
    using hi by simp
  then have fhi: "\<lfloor>X\<rfloor> < 2 ^ (k + 1075)"
    by (simp only: floor_less_iff)
  have "bitlen \<lfloor>X\<rfloor> \<le> int (k + 1075)"
    using fhi by (simp only: bitlen_le_iff_power nat_int) simp
  moreover have "int (k + 1075) \<le> bitlen \<lfloor>X\<rfloor>"
    using flo by (simp only: bitlen_ge_iff_power nat_int) (simp add: add.commute)
  ultimately have bl: "bitlen \<lfloor>X\<rfloor> = int (k + 1075)"
    by simp
  have e: "nat (bitlen \<lfloor>\<bar>X\<bar>\<rfloor> - 53) = k + 1022"
    using X0 by (simp add: bl)
  define c :: real where "c = 2 ^ 1022"
  have c0: "0 < c"
    by (simp add: c_def)
  have p1: "(2::real) ^ (k + 1022) = 2 ^ k * c"
    unfolding c_def by (rule power_add)
  have p2: "(2::real) ^ 1074 = 2 ^ 52 * c"
    unfolding c_def using power_add [of "2::real" 52 1022] by simp
  have Xc: "X = x * (2 ^ 52 * c)"
    by (simp only: X_def p2)
  have q: "X / (2 ^ k * c) = x * 2 ^ 52 / 2 ^ k"
    using c0 by (simp add: Xc)
  have "roundToDouble x =
      of_int (roundTiesToEven (X / 2 ^ (k + 1022))) * 2 ^ (k + 1022) / 2 ^ 1074"
    unfolding roundToDouble_def Let_def X_def [symmetric] e ..
  also have "\<dots> = of_int (roundTiesToEven (X / (2 ^ k * c))) * (2 ^ k * c) / (2 ^ 52 * c)"
    by (simp only: p1 p2)
  also have "\<dots> = of_int (roundTiesToEven (x * 2 ^ 52 / 2 ^ k)) * (2 ^ k * c) / (2 ^ 52 * c)"
    by (simp only: q)
  also have "\<dots> = of_int (roundTiesToEven (x * 2 ^ 52 / 2 ^ k)) * 2 ^ k / 2 ^ 52"
    using c0 by simp
  finally show ?thesis .
qed

text \<open>Natural numbers below \<open>2^53\<close> are doubles.\<close>

lemma fl_of_nat:
  assumes "real n < 2 ^ 53"
  shows "fl (real n) = Finite (real n)"
  using assms roundToDouble_of_nat [OF assms]
  by (intro fl_exact below_2_53) simp_all

lemma fl_values:
  "fl 500 = Finite 500" "fl 2000 = Finite 2000" "fl 4000 = Finite 4000"
  "fl 8000 = Finite 8000" "fl 16000 = Finite 16000" "fl 2500 = Finite 2500"
  "fl 4500 = Finite 4500" "fl 8500 = Finite 8500" "fl 16500 = Finite 16500"
  using fl_of_nat [of 500] fl_of_nat [of 2000] fl_of_nat [of 4000] fl_of_nat [of 8000]
    fl_of_nat [of 16000] fl_of_nat [of 2500] fl_of_nat [of 4500] fl_of_nat [of 8500]
    fl_of_nat [of 16500]
  by simp_all

text \<open>The delays of the default policy when every \<open>Math.random()\<close> is \<open>0.5\<close>.\<close>

lemma waitTime_half:
  "waitTime 2000 0 (1 / 2) = Finite 2500"
  "waitTime 2000 (Suc 0) (1 / 2) = Finite 4500"
  "waitTime 2000 2 (1 / 2) = Finite 8500"
  "waitTime 2000 3 (1 / 2) = Finite 16500"
  by (simp_all add: waitTime_def Math_pow2_def fl_values)

text \<open>
  The first delay of the default policy when \<open>Math.random()\<close> is the double next below
  \<open>1\<close>: the jitter rounds to \<open>1000 - 2^-43\<close> and the sum, half way between two doubles,
  rounds to \<open>3000\<close>.
\<close>

lemma fl_jitter_almost_one: "fl ((1 - 1 / 2 ^ 53) * 1000) = Finite (1000 - 1 / 2 ^ 43)"
proof -
  have "roundToDouble ((1 - 1 / 2 ^ 53) * 1000) = 1000 - 1 / 2 ^ 43"
    by (subst roundToDouble_normal [of 9]) (simp_all add: roundTiesToEven_def)
  then show ?thesis
    by (simp add: fl_def)
qed

lemma fl_sum_almost_3000: "fl (2000 + (1000 - 1 / 2 ^ 43)) = Finite 3000"
proof -
  have "roundToDouble (2000 + (1000 - 1 / 2 ^ 43)) = 3000"
    by (subst roundToDouble_normal [of 11]) (simp_all add: roundTiesToEven_def)
  then show ?thesis
    by (simp add: fl_def)
qed

lemma waitTime_endpoint: "waitTime 2000 0 (1 - 1 / 2 ^ 53) = Finite 3000"
  using fl_sum_almost_3000 fl_jitter_almost_one fl_values(2)
  by (simp add: waitTime_def Math_pow2_def)

text \<open>
  For a base delay as large as \<open>2^62\<close>, where neighbouring doubles are \<open>1024\<close> apart,
  the sum rounds past \<open>initialDelay + 1000\<close>.
\<close>

lemma waitTime_beyond_interval:
  "waitTime (2 ^ 62) 0 (5 / 8) = Finite (2 ^ 62 + 1024)"
proof -
  have a: "roundToDouble (2 ^ 62) = 2 ^ 62"
    by (subst roundToDouble_normal [of 62]) (simp_all add: roundTiesToEven_def)
  have b: "roundToDouble (2 ^ 62 + 625) = 2 ^ 62 + 1024"
    by (subst roundToDouble_normal [of 62]) (simp_all add: roundTiesToEven_def)
  have "fl (2 ^ 62) = Finite (2 ^ 62)" "fl (2 ^ 62 + 625) = Finite (2 ^ 62 + 1024)"
    using a b by (simp_all add: fl_def)
  moreover have "fl 625 = Finite 625"
    using fl_of_nat [of 625] by simp
  ultimately show ?thesis
    by (simp add: waitTime_def Math_pow2_def)
qed

section \<open>Properties of the string functions\<close>

text \<open>\<open>includesStr\<close> is the substring test.\<close>

lemma includesStr_sublist: "includesStr s p = sublist p s"
  by (induction s) (simp_all add: sublist_Cons_right)

lemma includesStr_iff: "includesStr s p \<longleftrightarrow> (\<exists>a b. s = a @ p @ b)"
  by (simp add: includesStr_sublist sublist_def)

text \<open>
  \<open>split\<close> is never empty, its pieces have no separator, and joining them with the
  separator gives the string back.
\<close>

lemma split_nonempty: "split s sep \<noteq> []"
  by (induction s) (simp_all split: list.splits)

lemma split_pieces: "p \<in> set (split s sep) \<Longrightarrow> sep \<notin> set p"
  by (induction s arbitrary: p) (auto split: list.splits if_splits)

lemma split_joins: "concat (map (\<lambda>p. sep # p) (split s sep)) = sep # s"
  by (induction s) (auto split: list.splits)

section \<open>Properties of the retrier\<close>

lemma failed_rounds_0 [simp]: "failed_rounds random d i 0 = []"
  by (simp add: failed_rounds_def)

lemma failed_rounds_Suc:
  "failed_rounds random d i (Suc k) =
     [Attempt i, Wait (waitTime d i (random i))] @ failed_rounds random d (Suc i) k"
proof -
  have "[i..<i + Suc k] = i # [Suc i..<Suc i + k]"
    by (simp add: upt_rec [of i])
  then show ?thesis
    by (simp add: failed_rounds_def)
qed

lemma attempts_append [simp]: "attempts (xs @ ys) = attempts xs + attempts ys"
  by (induction xs rule: attempts.induct) simp_all

lemma delays_append [simp]: "delays (xs @ ys) = delays xs @ delays ys"
  by (induction xs rule: delays.induct) simp_all

lemma attempts_failed_rounds [simp]: "attempts (failed_rounds random d i k) = k"
  by (induction k arbitrary: i) (simp_all add: failed_rounds_Suc)

lemma delays_failed_rounds:
  "delays (failed_rounds random d i k) = map (\<lambda>j. waitTime d j (random j)) [i..<i + k]"
proof (induction k arbitrary: i)
  case 0
  then show ?case by simp
next
  case (Suc k)
  have "[i..<i + Suc k] = i # [Suc i..<Suc i + k]"
    by (simp add: upt_rec [of i])
  with Suc [of "Suc i"] show ?case
    by (simp add: failed_rounds_Suc)
qed

text \<open>After \<open>k\<close> transient failures in a row the loop is where it would be had it started there.\<close>

lemma retry_loop_transient_prefix:
  assumes "\<forall>j. i \<le> j \<and> j < i + k \<longrightarrow> (\<exists>e. operation j = Inl e \<and> transient e)"
    and "int (i + k) \<le> maxRetries"
  shows "retry_loop operation random maxRetries d i tr =
         retry_loop operation random maxRetries d (i + k) (tr @ failed_rounds random d i k)"
  using assms
proof (induction k arbitrary: i tr)
  case 0
  then show ?case by simp
next
  case (Suc k)
  have "i \<le> i \<and> i < i + Suc k"
    by simp
  with Suc.prems(1) obtain e where e: "operation i = Inl e" "transient e"
    by blast
  have lt: "int i < maxRetries"
    using Suc.prems(2) by simp
  have step: "retry_loop operation random maxRetries d i tr =
      retry_loop operation random maxRetries d (Suc i)
        (tr @ [Attempt i, Wait (waitTime d i (random i))])"
    using e lt by (subst retry_loop.simps) simp
  have rest: "\<forall>j. Suc i \<le> j \<and> j < Suc i + k \<longrightarrow> (\<exists>e. operation j = Inl e \<and> transient e)"
    using Suc.prems(1) by simp
  have bound: "int (Suc i + k) \<le> maxRetries"
    using Suc.prems(2) by simp
  show ?case
    using Suc.IH [OF rest bound, of "tr @ [Attempt i, Wait (waitTime d i (random i))]"]
    by (simp add: step failed_rounds_Suc)
qed

lemma retry_loop_stop:
  "\<not> int i < maxRetries \<Longrightarrow>
   retry_loop operation random maxRetries d i tr = \<lparr>outcome = Inl RetriesExhausted, trace = tr\<rparr>"
  by (subst retry_loop.simps) simp

lemma retry_loop_success:
  "int i < maxRetries \<Longrightarrow> operation i = Inr v \<Longrightarrow>
   retry_loop operation random maxRetries d i tr = \<lparr>outcome = Inr v, trace = tr @ [Attempt i]\<rparr>"
  by (subst retry_loop.simps) simp

lemma retry_loop_permanent:
  "int i < maxRetries \<Longrightarrow> operation i = Inl e \<Longrightarrow> \<not> transient e \<Longrightarrow>
   retry_loop operation random maxRetries d i tr = \<lparr>outcome = Inl e, trace = tr @ [Attempt i]\<rparr>"
  by (subst retry_loop.simps) simp

lemma not_transient_RetriesExhausted: "\<not> transient RetriesExhausted"
  by (simp add: RetriesExhausted_def)

lemma retryWithBackoff_success_run:
  assumes "\<forall>j<k. \<exists>e. operation j = Inl e \<and> transient e"
    and "operation k = Inr v"
    and "int k < maxRetries"
  shows "retryWithBackoff operation random maxRetries initialDelay =
         \<lparr>outcome = Inr v, trace = failed_rounds random initialDelay 0 k @ [Attempt k]\<rparr>"
proof -
  have "\<forall>j. 0 \<le> j \<and> j < 0 + k \<longrightarrow> (\<exists>e. operation j = Inl e \<and> transient e)"
    using assms(1) by simp
  moreover have "int (0 + k) \<le> maxRetries"
    using assms(3) by simp
  ultimately have "retry_loop operation random maxRetries initialDelay 0 [] =
      retry_loop operation random maxRetries initialDelay (0 + k)
        ([] @ failed_rounds random initialDelay 0 k)"
    by (rule retry_loop_transient_prefix)
  then show ?thesis
    using assms(2,3) by (simp add: retryWithBackoff_def retry_loop_success)
qed

text \<open>
  Claim C1. If the operation throws a transient error on each of its first \<open>k\<close> calls,
  with \<open>k < maxRetries\<close>, and call \<open>k\<close> resolves to \<open>v\<close>, then \<open>retryWithBackoff\<close>
  resolves to \<open>v\<close>; its trace is the \<open>k\<close> failed rounds (an attempt and its wait) and
  then the successful attempt, which is the last thing it does: \<open>k + 1\<close> attempts in all.
\<close>

theorem retry_then_succeed:
  assumes "\<forall>j<k. \<exists>e. operation j = Inl e \<and> transient e"
    and "operation k = Inr v"
    and "int k < maxRetries"
  shows "outcome (retryWithBackoff operation random maxRetries initialDelay) = Inr v \<and>
         trace (retryWithBackoff operation random maxRetries initialDelay) =
           concat (map (\<lambda>j. [Attempt j, Wait (waitTime initialDelay j (random j))]) [0..<k])
           @ [Attempt k] \<and>
         attempts (trace (retryWithBackoff operation random maxRetries initialDelay)) = Suc k"
proof -
  have run: "retryWithBackoff operation random maxRetries initialDelay =
      \<lparr>outcome = Inr v, trace = failed_rounds random initialDelay 0 k @ [Attempt k]\<rparr>"
    using assms by (rule retryWithBackoff_success_run)
  have "attempts (failed_rounds random initialDelay 0 k @ [Attempt k]) = Suc k"
    by simp
  with run show ?thesis
    by (simp add: failed_rounds_def)
qed

theorem retry_then_succeed_witness:
  "flaky 2 0 = Inl (Error ''503 Service Unavailable'') \<and>
   flaky 2 1 = Inl (Error ''503 Service Unavailable'') \<and>
   transient (Error ''503 Service Unavailable'') \<and>
   flaky 2 2 = Inr ''fine'' \<and> int 2 < 5 \<and>
   outcome (retryWithBackoff (flaky 2) (\<lambda>i. 1 / 2) 5 2000) = Inr ''fine'' \<and>
   trace (retryWithBackoff (flaky 2) (\<lambda>i. 1 / 2) 5 2000) =
     [Attempt 0, Wait (Finite 2500), Attempt 1, Wait (Finite 4500), Attempt 2]"
proof -
  have h1: "\<forall>j<2. \<exists>e. flaky 2 j = Inl e \<and> transient e"
    by (simp add: flaky_def)
  have h2: "flaky 2 2 = Inr ''fine''"
    by (simp add: flaky_def)
  have h3: "int 2 < 5"
    by simp
  have up: "[0..<2] = [0, Suc 0]"
    by (simp add: upt_rec)
  have f: "flaky 2 0 = Inl (Error ''503 Service Unavailable'')" "flaky 2 1 = Inl (Error ''503 Service Unavailable'')"
    by (simp_all add: flaky_def)
  show ?thesis
    using retry_then_succeed [OF h1 h2 h3, of "\<lambda>i. 1 / 2" 2000] h2 f
    by (simp add: up waitTime_half)
qed


lemma retry_loop_all_transient:
  assumes "\<forall>j. int j < maxRetries \<longrightarrow> (\<exists>e. operation j = Inl e \<and> transient e)"
  shows "retryWithBackoff operation random maxRetries initialDelay =
         \<lparr>outcome = Inl RetriesExhausted,
          trace = failed_rounds random initialDelay 0 (nat maxRetries)\<rparr>"
proof -
  have "\<forall>j. 0 \<le> j \<and> j < 0 + nat maxRetries \<longrightarrow> (\<exists>e. operation j = Inl e \<and> transient e)"
    using assms by simp
  moreover have "int (0 + nat maxRetries) \<le> maxRetries \<or> maxRetries < 0"
    by simp
  have "retry_loop operation random maxRetries initialDelay 0 [] =
      retry_loop operation random maxRetries initialDelay (0 + nat maxRetries)
        ([] @ failed_rounds random initialDelay 0 (nat maxRetries))"
  proof (cases "0 \<le> maxRetries")
    case True
    have a: "\<forall>j. 0 \<le> j \<and> j < 0 + nat maxRetries \<longrightarrow> (\<exists>e. operation j = Inl e \<and> transient e)"
      using assms by simp
    have b: "int (0 + nat maxRetries) \<le> maxRetries"
      using True by simp
    show ?thesis
      using a b by (rule retry_loop_transient_prefix)
  next
    case False
    then show ?thesis by simp
  qed
  moreover have "\<not> int (nat maxRetries) < maxRetries"
    by simp
  ultimately show ?thesis
    by (simp add: retryWithBackoff_def retry_loop_stop)
qed

text \<open>
  Claim C2. If every call of the operation that the policy allows (call \<open>j\<close> with
  \<open>j < maxRetries\<close>) throws a transient error, \<open>retryWithBackoff\<close> throws the Error
  with the message of line 48, and what it throws is none of the transient errors.
\<close>

theorem retries_exhausted:
  assumes "\<forall>j. int j < maxRetries \<longrightarrow> (\<exists>e. operation j = Inl e \<and> transient e)"
  shows "outcome (retryWithBackoff operation random maxRetries initialDelay) =
           Inl (Error ''Maximum retries reached. The service is currently unavailable. Please try again later.'') \<and>
         (\<forall>e. transient e \<longrightarrow>
            outcome (retryWithBackoff operation random maxRetries initialDelay) \<noteq> Inl e)"
proof -
  have "outcome (retryWithBackoff operation random maxRetries initialDelay) = Inl RetriesExhausted"
    using assms by (simp add: retry_loop_all_transient)
  moreover have "\<forall>e. transient e \<longrightarrow> RetriesExhausted \<noteq> e"
    using not_transient_RetriesExhausted by blast
  ultimately show ?thesis
    by (simp add: RetriesExhausted_def)
qed

theorem retries_exhausted_witness:
  "flaky 5 0 = Inl (Error ''503 Service Unavailable'') \<and>
   flaky 5 4 = Inl (Error ''503 Service Unavailable'') \<and>
   transient (Error ''503 Service Unavailable'') \<and>
   outcome (retryWithBackoff (flaky 5) (\<lambda>i. 1 / 2) 5 2000) =
     Inl (Error ''Maximum retries reached. The service is currently unavailable. Please try again later.'') \<and>
   outcome (retryWithBackoff (flaky 5) (\<lambda>i. 1 / 2) 5 2000) \<noteq> Inl (Error ''503 Service Unavailable'')"
proof -
  have h: "\<forall>j. int j < 5 \<longrightarrow> (\<exists>e. flaky 5 j = Inl e \<and> transient e)"
    by (simp add: flaky_def)
  have t: "transient (Error ''503 Service Unavailable'')"
    by simp
  have f: "flaky 5 0 = Inl (Error ''503 Service Unavailable'')"
    "flaky 5 4 = Inl (Error ''503 Service Unavailable'')"
    by (simp_all add: flaky_def)
  show ?thesis
    using retries_exhausted [OF h, of "\<lambda>i. 1 / 2" 2000] t f by simp
qed

text \<open>
  Claim C3. If the first call of the operation throws a value that is not transient (an
  Error whose message has neither \<open>503\<close> nor \<open>overloaded\<close>, or a value that is no
  Error), then under a policy with \<open>maxRetries \<ge> 1\<close> the retrier throws that same value
  and its trace is that one attempt: no wait, no second attempt.
\<close>

theorem permanent_failure:
  assumes "operation 0 = Inl e" and "\<not> transient e" and "1 \<le> maxRetries"
  shows "outcome (retryWithBackoff operation random maxRetries initialDelay) = Inl e \<and>
         trace (retryWithBackoff operation random maxRetries initialDelay) = [Attempt 0]"
  using assms by (simp add: retryWithBackoff_def retry_loop_permanent)

theorem permanent_failure_witness:
  "denied 0 = Inl (Error ''API key not valid'') \<and> \<not> transient (Error ''API key not valid'') \<and>
   (1::int) \<le> 5 \<and>
   outcome (retryWithBackoff denied (\<lambda>i. 1 / 2) 5 2000) = Inl (Error ''API key not valid'') \<and>
   trace (retryWithBackoff denied (\<lambda>i. 1 / 2) 5 2000) = [Attempt 0]"
proof -
  have h1: "denied 0 = Inl (Error ''API key not valid'')"
    by (simp add: denied_def)
  have h2: "\<not> transient (Error ''API key not valid'')"
    by simp
  have h3: "(1::int) \<le> 5"
    by simp
  show ?thesis
    using permanent_failure [of denied "Error ''API key not valid''" 5 "\<lambda>i. 1 / 2" 2000, OF h1 h2 h3]
      h1 h2
    by simp
qed

text \<open>
  Claim C10. If every call that the policy allows throws a transient error, the trace is
  an attempt followed by its wait, \<open>maxRetries\<close> times over: \<open>maxRetries\<close> attempts,
  \<open>maxRetries\<close> waits, the wait after failure \<open>j\<close> being
  \<open>waitTime initialDelay j (random j)\<close>, and the trace ends with the wait that follows
  the last failure; then the retrier throws \<open>RetriesExhausted\<close>.
\<close>

theorem delay_after_every_failure:
  assumes "\<forall>j. int j < maxRetries \<longrightarrow> (\<exists>e. operation j = Inl e \<and> transient e)"
  shows "outcome (retryWithBackoff operation random maxRetries initialDelay) = Inl RetriesExhausted \<and>
         trace (retryWithBackoff operation random maxRetries initialDelay) =
           concat (map (\<lambda>j. [Attempt j, Wait (waitTime initialDelay j (random j))])
                       [0..<nat maxRetries]) \<and>
         delays (trace (retryWithBackoff operation random maxRetries initialDelay)) =
           map (\<lambda>j. waitTime initialDelay j (random j)) [0..<nat maxRetries] \<and>
         attempts (trace (retryWithBackoff operation random maxRetries initialDelay)) =
           nat maxRetries \<and>
         (0 < maxRetries \<longrightarrow>
            last (trace (retryWithBackoff operation random maxRetries initialDelay)) =
              Wait (waitTime initialDelay (nat maxRetries - 1) (random (nat maxRetries - 1))))"
proof -
  let ?n = "nat maxRetries"
  have run: "retryWithBackoff operation random maxRetries initialDelay =
      \<lparr>outcome = Inl RetriesExhausted, trace = failed_rounds random initialDelay 0 ?n\<rparr>"
    using assms by (rule retry_loop_all_transient)
  have d: "delays (failed_rounds random initialDelay 0 ?n) =
      map (\<lambda>j. waitTime initialDelay j (random j)) [0..<?n]"
    by (simp add: delays_failed_rounds)
  have a: "attempts (failed_rounds random initialDelay 0 ?n) = ?n"
    by simp
  have l: "last (failed_rounds random initialDelay 0 ?n) =
      Wait (waitTime initialDelay (?n - 1) (random (?n - 1)))" if "0 < maxRetries"
  proof -
    from that obtain m where m: "?n = Suc m"
      by (metis Suc_pred' zero_less_nat_eq)
    have "failed_rounds random initialDelay 0 (Suc m) =
        failed_rounds random initialDelay 0 m @
          [Attempt m, Wait (waitTime initialDelay m (random m))]"
      by (simp add: failed_rounds_def)
    then show ?thesis
      by (simp add: m)
  qed
  show ?thesis
    using d a l by (simp add: run failed_rounds_def)
qed

theorem delay_after_every_failure_witness:
  "flaky 3 0 = Inl (Error ''503 Service Unavailable'') \<and>
   flaky 3 2 = Inl (Error ''503 Service Unavailable'') \<and>
   transient (Error ''503 Service Unavailable'') \<and>
   outcome (retryWithBackoff (flaky 3) (\<lambda>i. 1 / 2) 3 2000) = Inl RetriesExhausted \<and>
   trace (retryWithBackoff (flaky 3) (\<lambda>i. 1 / 2) 3 2000) =
     [Attempt 0, Wait (Finite 2500), Attempt 1, Wait (Finite 4500), Attempt 2,
      Wait (Finite 8500)]"
proof -
  have h: "\<forall>j. int j < 3 \<longrightarrow> (\<exists>e. flaky 3 j = Inl e \<and> transient e)"
    by (simp add: flaky_def)
  have up: "[0..<3] = [0, Suc 0, 2]"
    by (simp add: upt_rec)
  have f: "flaky 3 0 = Inl (Error ''503 Service Unavailable'')" "flaky 3 2 = Inl (Error ''503 Service Unavailable'')"
    by (simp_all add: flaky_def)
  show ?thesis
    using delay_after_every_failure [OF h, of "\<lambda>i. 1 / 2" 2000] f
    by (simp add: up waitTime_half)
qed

section \<open>The backoff delays\<close>

text \<open>
  The delays of a run are the wait times of the counters \<open>i, i + 1, ...\<close> in order, and
  every counter that gets a delay is below \<open>maxRetries\<close>.
\<close>

lemma retry_loop_delays:
  "\<exists>k. (\<forall>j. i \<le> j \<and> j < i + k \<longrightarrow> int j < maxRetries) \<and>
       delays (trace (retry_loop operation random maxRetries initialDelay i tr)) =
       delays tr @ map (\<lambda>j. waitTime initialDelay j (random j)) [i..<i + k]"
proof (induction operation random maxRetries initialDelay i tr rule: retry_loop.induct)
  case (1 operation random maxRetries initialDelay retries tr)
  let ?w = "waitTime initialDelay retries (random retries)"
  show ?case
  proof (cases "int retries < maxRetries \<and> (\<exists>e. operation retries = Inl e \<and> transient e)")
    case True
    then obtain e where e: "int retries < maxRetries" "operation retries = Inl e" "transient e"
      by blast
    from "1.IH" [OF e] obtain k where
      b: "\<forall>j. Suc retries \<le> j \<and> j < Suc retries + k \<longrightarrow> int j < maxRetries" and
      k: "delays (trace (retry_loop operation random maxRetries initialDelay (Suc retries)
             (tr @ [Attempt retries, Wait ?w]))) =
          delays (tr @ [Attempt retries, Wait ?w]) @
          map (\<lambda>j. waitTime initialDelay j (random j)) [Suc retries..<Suc retries + k]"
      by blast
    have step: "retry_loop operation random maxRetries initialDelay retries tr =
        retry_loop operation random maxRetries initialDelay (Suc retries)
          (tr @ [Attempt retries, Wait ?w])"
      using e by (subst retry_loop.simps) simp
    have pre: "delays (tr @ [Attempt retries, Wait ?w]) = delays tr @ [?w]"
      by simp
    have up: "[?w] @ map (\<lambda>j. waitTime initialDelay j (random j)) [Suc retries..<Suc retries + k] =
        map (\<lambda>j. waitTime initialDelay j (random j)) [retries..<retries + Suc k]"
      by (simp add: upt_rec [of retries] del: upt_Suc)
    have "delays (trace (retry_loop operation random maxRetries initialDelay retries tr)) =
        delays tr @ map (\<lambda>j. waitTime initialDelay j (random j)) [retries..<retries + Suc k]"
      by (simp only: step k pre up append_assoc)
    moreover have "\<forall>j. retries \<le> j \<and> j < retries + Suc k \<longrightarrow> int j < maxRetries"
    proof (intro allI impI)
      fix j
      assume j: "retries \<le> j \<and> j < retries + Suc k"
      show "int j < maxRetries"
      proof (cases "j = retries")
        case True
        with e(1) show ?thesis by simp
      next
        case False
        with j have "Suc retries \<le> j \<and> j < Suc retries + k"
          by simp
        with b show ?thesis by blast
      qed
    qed
    ultimately show ?thesis
      by blast
  next
    case False
    then have "delays (trace (retry_loop operation random maxRetries initialDelay retries tr)) =
        delays tr"
      by (subst retry_loop.simps) (auto split: sum.splits)
    then have "(\<forall>j. retries \<le> j \<and> j < retries + 0 \<longrightarrow> int j < maxRetries) \<and>
        delays (trace (retry_loop operation random maxRetries initialDelay retries tr)) =
        delays tr @ map (\<lambda>j. waitTime initialDelay j (random j)) [retries..<retries + 0]"
      by simp
    then show ?thesis
      by blast
  qed
qed

lemma retryWithBackoff_delays:
  "\<exists>k. (\<forall>j<k. int j < maxRetries) \<and>
       delays (trace (retryWithBackoff operation random maxRetries initialDelay)) =
       map (\<lambda>j. waitTime initialDelay j (random j)) [0..<k]"
  using retry_loop_delays [of 0 maxRetries operation random initialDelay "[]"]
  by (simp add: retryWithBackoff_def)

text \<open>
  Claim C5, as stated, fails. Under the default policy, when the first attempt fails and
  \<open>Math.random()\<close> returns the double next below \<open>1\<close>, the delay after attempt \<open>0\<close>
  is exactly \<open>3000 = 2000 * 2^0 + 1000\<close>, the end of the interval that the claim leaves
  out.
\<close>

theorem backoff_delay_endpoint_counterexample:
  "(0::real) \<le> almost_one 0 \<and> almost_one 0 < 1 \<and>
   delays (trace (retryWithBackoff (flaky 1) almost_one 5 2000)) = [Finite 3000] \<and>
   \<not> ((3000::real) < 2000 * 2 ^ 0 + 1000)"
proof -
  have h1: "\<forall>j<1. \<exists>e. flaky 1 j = Inl e \<and> transient e"
    by (simp add: flaky_def)
  have h2: "flaky 1 1 = Inr ''fine''"
    by (simp add: flaky_def)
  have h3: "int 1 < 5"
    by simp
  have "delays (trace (retryWithBackoff (flaky 1) almost_one 5 2000)) =
      [waitTime 2000 0 (almost_one 0)]"
    using retryWithBackoff_success_run [OF h1 h2 h3, of almost_one 2000]
    by (simp add: failed_rounds_def)
  moreover have "waitTime 2000 0 (almost_one 0) = Finite 3000"
    by (simp only: almost_one_def waitTime_endpoint)
  moreover have "(0::real) \<le> almost_one 0 \<and> almost_one 0 < 1"
    by (simp add: almost_one_def)
  ultimately show ?thesis
    by simp
qed

text \<open>
  Claim C5, amended. With every value of \<open>Math.random()\<close> in \<open>[0, 1)\<close>, and a policy
  whose base delay is a natural number with \<open>baseDelayMs * 2^i + 1000 < 2^53\<close> (and
  \<open>i < 1024\<close>) for every counter \<open>i\<close> below \<open>maxRetries\<close>: in every run the delay
  number \<open>i\<close> is a finite number, at least \<open>baseDelayMs * 2^i\<close> and at most
  \<open>baseDelayMs * 2^i + 1000\<close>. Under the default policy (5, 2000) the delays of a run
  are finite and in non-decreasing order.
\<close>

theorem backoff_delay_bounds:
  assumes "\<forall>j. 0 \<le> random j \<and> random j < 1"
    and "\<forall>i. int i < maxRetries \<longrightarrow> i < 1024 \<and> real baseDelayMs * 2 ^ i + 1000 < 2 ^ 53"
  shows "(\<forall>i. i < length (delays (trace
              (retryWithBackoff operation random maxRetries (real baseDelayMs)))) \<longrightarrow>
            (\<exists>w. delays (trace
                    (retryWithBackoff operation random maxRetries (real baseDelayMs))) ! i =
                  Finite w \<and>
                real baseDelayMs * 2 ^ i \<le> w \<and> w \<le> real baseDelayMs * 2 ^ i + 1000)) \<and>
         (\<exists>ws. delays (trace (retryWithBackoff operation random 5 2000)) = map Finite ws \<and>
               sorted ws)"
proof
  obtain k where b: "\<forall>j<k. int j < maxRetries" and
    k: "delays (trace (retryWithBackoff operation random maxRetries (real baseDelayMs))) =
       map (\<lambda>j. waitTime (real baseDelayMs) j (random j)) [0..<k]"
    using retryWithBackoff_delays by blast
  show "\<forall>i. i < length (delays (trace
              (retryWithBackoff operation random maxRetries (real baseDelayMs)))) \<longrightarrow>
            (\<exists>w. delays (trace
                    (retryWithBackoff operation random maxRetries (real baseDelayMs))) ! i =
                  Finite w \<and>
                real baseDelayMs * 2 ^ i \<le> w \<and> w \<le> real baseDelayMs * 2 ^ i + 1000)"
  proof (intro allI impI)
    fix i
    assume "i < length (delays (trace
              (retryWithBackoff operation random maxRetries (real baseDelayMs))))"
    then have ik: "i < k"
      by (simp add: k)
    with b have "int i < maxRetries"
      by blast
    with assms(2) have r: "i < 1024" "real baseDelayMs * 2 ^ i + 1000 < 2 ^ 53"
      by blast+
    have "\<exists>w. waitTime (real baseDelayMs) i (random i) = Finite w \<and>
        real baseDelayMs * 2 ^ i \<le> w \<and> w \<le> real baseDelayMs * 2 ^ i + 1000"
      using assms(1) r by (intro waitTime_bounds) simp_all
    then show "\<exists>w. delays (trace
                    (retryWithBackoff operation random maxRetries (real baseDelayMs))) ! i =
                  Finite w \<and>
                real baseDelayMs * 2 ^ i \<le> w \<and> w \<le> real baseDelayMs * 2 ^ i + 1000"
      using ik by (simp add: k)
  qed
next
  obtain k where b: "\<forall>j<k. int j < 5" and
    k: "delays (trace (retryWithBackoff operation random 5 2000)) =
       map (\<lambda>j. waitTime 2000 j (random j)) [0..<k]"
    using retryWithBackoff_delays by blast
  have bound: "\<exists>w. waitTime 2000 j (random j) = Finite w \<and>
      2000 * 2 ^ j \<le> w \<and> w \<le> 2000 * 2 ^ j + 1000" if "j < k" for j
  proof -
    from that b have "j < 5"
      by auto
    then have "(2::real) ^ j \<le> 2 ^ 4"
      by (intro power_increasing) simp_all
    then have "real 2000 * 2 ^ j + 1000 < 2 ^ 53"
      by simp
    moreover have "j < 1024"
      using \<open>j < 5\<close> by simp
    ultimately have "\<exists>w. waitTime (real 2000) j (random j) = Finite w \<and>
        real 2000 * 2 ^ j \<le> w \<and> w \<le> real 2000 * 2 ^ j + 1000"
      using assms(1) by (intro waitTime_bounds) simp_all
    then show ?thesis
      by simp
  qed
  then have "\<forall>j. \<exists>w. j < k \<longrightarrow> waitTime 2000 j (random j) = Finite w \<and>
      2000 * 2 ^ j \<le> w \<and> w \<le> 2000 * 2 ^ j + 1000"
    by blast
  then obtain f where f: "\<forall>j. j < k \<longrightarrow> waitTime 2000 j (random j) = Finite (f j) \<and>
      2000 * 2 ^ j \<le> f j \<and> f j \<le> 2000 * 2 ^ j + 1000"
    using choice [of "\<lambda>j w. j < k \<longrightarrow> waitTime 2000 j (random j) = Finite w \<and>
      2000 * 2 ^ j \<le> w \<and> w \<le> 2000 * 2 ^ j + 1000"] by blast
  have eq: "map (\<lambda>j. waitTime 2000 j (random j)) [0..<k] = map Finite (map f [0..<k])"
    using f by simp
  have "f a \<le> f c" if "a < c" and "c < k" for a c
  proof -
    have "f a \<le> 2000 * 2 ^ a + 1000"
      using f that by simp
    also have "\<dots> \<le> 2000 * 2 ^ Suc a"
    proof -
      have "(1::real) \<le> 2 ^ a"
        by simp
      then have "(2000::real) * 2 ^ a + 1000 \<le> 2000 * (2 * 2 ^ a)"
        by linarith
      then show ?thesis
        by simp
    qed
    also have "\<dots> \<le> 2000 * 2 ^ c"
      using that(1) by (simp add: Suc_leI power_increasing del: power_Suc)
    also have "\<dots> \<le> f c"
      using f that(2) by simp
    finally show ?thesis .
  qed
  then have "sorted (map f [0..<k])"
    by (simp add: sorted_map sorted_wrt_iff_nth_less)
  with eq k show "\<exists>ws. delays (trace (retryWithBackoff operation random 5 2000)) =
      map Finite ws \<and> sorted ws"
    by metis
qed

theorem backoff_delay_bounds_witness:
  "delays (trace (retryWithBackoff (flaky 4) (\<lambda>i. 1 / 2) 5 2000)) =
     [Finite 2500, Finite 4500, Finite 8500, Finite 16500] \<and>
   (\<exists>w. delays (trace (retryWithBackoff (flaky 4) (\<lambda>i. 1 / 2) 5 2000)) ! 3 = Finite w \<and>
        2000 * 2 ^ 3 \<le> w \<and> w \<le> 2000 * 2 ^ 3 + 1000) \<and>
   (\<exists>ws. delays (trace (retryWithBackoff (flaky 4) (\<lambda>i. 1 / 2) 5 2000)) = map Finite ws \<and>
         sorted ws)"
proof -
  have h: "\<forall>j::nat. (0::real) \<le> 1 / 2 \<and> (1::real) / 2 < 1"
    by simp
  have p: "\<forall>i. int i < 5 \<longrightarrow> i < 1024 \<and> real 2000 * 2 ^ i + 1000 < 2 ^ 53"
  proof (intro allI impI)
    fix i :: nat
    assume "int i < 5"
    then have i: "i < 5"
      by simp
    then have "(2::real) ^ i \<le> 2 ^ 4"
      by (intro power_increasing) simp_all
    with i show "i < 1024 \<and> real 2000 * 2 ^ i + 1000 < 2 ^ 53"
      by simp
  qed
  have h1: "\<forall>j<4. \<exists>e. flaky 4 j = Inl e \<and> transient e"
    by (simp add: flaky_def)
  have h2: "flaky 4 4 = Inr ''fine''"
    by (simp add: flaky_def)
  have h3: "int 4 < 5"
    by simp
  have up: "[0..<4] = [0, Suc 0, 2, 3]"
    by (simp add: upt_rec)
  have d: "delays (trace (retryWithBackoff (flaky 4) (\<lambda>i. 1 / 2) 5 2000)) =
      [Finite 2500, Finite 4500, Finite 8500, Finite 16500]"
    using retryWithBackoff_success_run [OF h1 h2 h3, of "\<lambda>i. 1 / 2" 2000]
    by (simp add: failed_rounds_def up waitTime_half)
  have len: "(3::nat) < length (delays (trace
      (retryWithBackoff (flaky 4) (\<lambda>i. 1 / 2) 5 2000)))"
    by (simp add: d)
  have r: "real 2000 = 2000"
    by simp
  note t = backoff_delay_bounds [OF h p, of "flaky 4", unfolded r]
  show ?thesis
    using t [THEN conjunct1, rule_format, OF len] t [THEN conjunct2] d
    by simp
qed

section \<open>Properties of the encoder\<close>

lemma split_no_sep: "sep \<notin> set s \<Longrightarrow> split s sep = [s]"
  by (induction s) auto

lemma split_at_first:
  "sep \<notin> set pre \<Longrightarrow> split (pre @ sep # rest) sep = pre # split rest sep"
  by (induction pre) auto

text \<open>
  Claim C9, as stated, fails: for a blob that reads as \<open>data:image/png;base64,\<close>
  (an image with no bytes) the resource was read and the comma is there, and yet
  \<open>blobToBase64\<close> rejects.
\<close>

theorem blobToBase64_empty_payload_counterexample:
  "readAsDataURL (png_blob ''data:image/png;base64,'') = Some ''data:image/png;base64,'' \<and>
   CHR '','' \<in> set ''data:image/png;base64,'' \<and>
   blobToBase64 (png_blob ''data:image/png;base64,'') =
     Inl (Error ''Failed to convert image to base64'')"
  by (simp add: png_blob_def blobToBase64_def)

text \<open>
  Claim C9, amended. \<open>blobToBase64\<close> rejects with \<open>Failed to read image file\<close> when
  the read fails; it rejects with \<open>Failed to convert image to base64\<close> when the string
  read has no comma; and when the string read is a prefix, one comma and a payload, it
  rejects with that same error if the payload is empty and resolves to the payload, the
  prefix and the comma stripped, otherwise.
\<close>

theorem blobToBase64_cases:
  "(readAsDataURL b = None \<longrightarrow> blobToBase64 b = Inl (Error ''Failed to read image file'')) \<and>
   (\<forall>s. readAsDataURL b = Some s \<and> CHR '','' \<notin> set s \<longrightarrow>
      blobToBase64 b = Inl (Error ''Failed to convert image to base64'')) \<and>
   (\<forall>pre payload.
      readAsDataURL b = Some (pre @ CHR '','' # payload) \<and>
      CHR '','' \<notin> set pre \<and> CHR '','' \<notin> set payload \<longrightarrow>
      blobToBase64 b =
        (if payload = [] then Inl (Error ''Failed to convert image to base64'')
         else Inr payload))"
  by (simp add: blobToBase64_def split_no_sep split_at_first)

theorem blobToBase64_cases_witness:
  "blobToBase64 unreadable_blob = Inl (Error ''Failed to read image file'') \<and>
   blobToBase64 (png_blob ''AAAA'') = Inl (Error ''Failed to convert image to base64'') \<and>
   blobToBase64 (png_blob ''data:image/png;base64,iVBORw0KGgo='') = Inr ''iVBORw0KGgo='' \<and>
   blobToBase64 (png_blob ''data:image/png;base64,'') =
     Inl (Error ''Failed to convert image to base64'')"
proof -
  have r0: "readAsDataURL unreadable_blob = None"
    by (simp add: unreadable_blob_def)
  have r1: "readAsDataURL (png_blob ''AAAA'') = Some ''AAAA'' \<and> CHR '','' \<notin> set ''AAAA''"
    by (simp add: png_blob_def)
  have r2: "readAsDataURL (png_blob ''data:image/png;base64,iVBORw0KGgo='') =
        Some (''data:image/png;base64'' @ CHR '','' # ''iVBORw0KGgo='') \<and>
      CHR '','' \<notin> set ''data:image/png;base64'' \<and> CHR '','' \<notin> set ''iVBORw0KGgo=''"
    by (simp add: png_blob_def)
  have r3: "readAsDataURL (png_blob ''data:image/png;base64,'') =
        Some (''data:image/png;base64'' @ CHR '','' # []) \<and>
      CHR '','' \<notin> set ''data:image/png;base64'' \<and> CHR '','' \<notin> set ''''"
    by (simp add: png_blob_def)
  have c0: "blobToBase64 unreadable_blob = Inl (Error ''Failed to read image file'')"
    using blobToBase64_cases [of unreadable_blob, THEN conjunct1, rule_format, OF r0] .
  have c1: "blobToBase64 (png_blob ''AAAA'') = Inl (Error ''Failed to convert image to base64'')"
    using blobToBase64_cases [THEN conjunct2, THEN conjunct1, rule_format, OF r1] .
  have c2: "blobToBase64 (png_blob ''data:image/png;base64,iVBORw0KGgo='') =
      (if ''iVBORw0KGgo='' = [] then Inl (Error ''Failed to convert image to base64'')
       else Inr ''iVBORw0KGgo='')"
    using blobToBase64_cases [THEN conjunct2, THEN conjunct2, rule_format, OF r2] .
  have c3: "blobToBase64 (png_blob ''data:image/png;base64,'') =
      (if ('''' :: string) = [] then Inl (Error ''Failed to convert image to base64'')
       else Inr '''')"
    using blobToBase64_cases [THEN conjunct2, THEN conjunct2, rule_format, OF r3] .
  show ?thesis
    using c0 c1 c2 c3 by simp
qed

section \<open>Properties of the orchestrator\<close>

lemma retry_loop_trace_prefix:
  "\<exists>rest. trace (retry_loop operation random maxRetries initialDelay i tr) = tr @ rest"
proof (induction operation random maxRetries initialDelay i tr rule: retry_loop.induct)
  case (1 operation random maxRetries initialDelay retries tr)
  let ?w = "waitTime initialDelay retries (random retries)"
  show ?case
  proof (cases "int retries < maxRetries \<and> (\<exists>e. operation retries = Inl e \<and> transient e)")
    case True
    then obtain e where e: "int retries < maxRetries" "operation retries = Inl e" "transient e"
      by blast
    from "1.IH" [OF e] obtain rest where
      "trace (retry_loop operation random maxRetries initialDelay (Suc retries)
         (tr @ [Attempt retries, Wait ?w])) = (tr @ [Attempt retries, Wait ?w]) @ rest"
      by blast
    moreover have "retry_loop operation random maxRetries initialDelay retries tr =
        retry_loop operation random maxRetries initialDelay (Suc retries)
          (tr @ [Attempt retries, Wait ?w])"
      using e by (subst retry_loop.simps) simp
    ultimately have "trace (retry_loop operation random maxRetries initialDelay retries tr) =
        tr @ ([Attempt retries, Wait ?w] @ rest)"
      by simp
    then show ?thesis
      by blast
  next
    case False
    then have "trace (retry_loop operation random maxRetries initialDelay retries tr) = tr \<or>
        trace (retry_loop operation random maxRetries initialDelay retries tr) =
          tr @ [Attempt retries]"
      by (subst (1 2) retry_loop.simps) (auto split: sum.splits)
    then show ?thesis
      by auto
  qed
qed

text \<open>A retrier that may try at least once starts with an attempt.\<close>

lemma retryWithBackoff_first_attempt:
  assumes "0 < maxRetries"
  shows "\<exists>rest. trace (retryWithBackoff operation random maxRetries initialDelay) =
           Attempt 0 # rest"
proof (cases "\<exists>e. operation 0 = Inl e \<and> transient e")
  case True
  then obtain e where e: "operation 0 = Inl e" "transient e"
    by blast
  have "retry_loop operation random maxRetries initialDelay 0 [] =
      retry_loop operation random maxRetries initialDelay (Suc 0)
        ([] @ [Attempt 0, Wait (waitTime initialDelay 0 (random 0))])"
    using e assms by (subst retry_loop.simps) simp
  moreover obtain rest where
    "trace (retry_loop operation random maxRetries initialDelay (Suc 0)
        ([] @ [Attempt 0, Wait (waitTime initialDelay 0 (random 0))])) =
      ([] @ [Attempt 0, Wait (waitTime initialDelay 0 (random 0))]) @ rest"
    using retry_loop_trace_prefix by blast
  ultimately show ?thesis
    by (simp add: retryWithBackoff_def)
next
  case False
  then have "trace (retry_loop operation random maxRetries initialDelay 0 []) = [Attempt 0]"
    using assms by (subst retry_loop.simps) (auto split: sum.splits)
  then show ?thesis
    by (simp add: retryWithBackoff_def)
qed

lemma retried_effects:
  "\<exists>rest. snd (retried env parts) = Generate parts # rest"
proof -
  obtain rest where
    "trace (retryWithBackoff (callModel env parts) (math_random env) 5 2000) = Attempt 0 # rest"
    using retryWithBackoff_first_attempt
      [where maxRetries = 5 and operation = "callModel env parts"
         and random = "math_random env" and initialDelay = 2000]
    by auto
  then show ?thesis
    by (simp add: retried_def Let_def)
qed

lemma retried_no_other_call:
  "e \<in> set (snd (retried env parts)) \<Longrightarrow> e = Generate parts \<or> (\<exists>d. e = Sleep d)"
proof -
  have "effect_of parts s = Generate parts \<or> (\<exists>d. effect_of parts s = Sleep d)" for s
    by (cases s) simp_all
  then show "e \<in> set (snd (retried env parts)) \<Longrightarrow> e = Generate parts \<or> (\<exists>d. e = Sleep d)"
    by (auto simp: retried_def Let_def)
qed

lemma analyze_effects: 
  "snd (analyzeXrayImage env imageUrl prompt language) =
   snd (analyzeXrayImage_try env imageUrl prompt language)"
  by (simp add: analyzeXrayImage_def split: prod.splits sum.splits)

lemma try_image_path_starts_with_fetch:
  assumes "\<not> (imageUrl = [] \<and> language \<noteq> ''english'')"
  shows "\<exists>rest. snd (analyzeXrayImage_try env imageUrl prompt language) = Fetch imageUrl # rest"
  using assms
  by (auto simp: analyzeXrayImage_try_def split: sum.splits prod.splits)

text \<open>
  Claim C6. With no image URL and a language other than \<open>english\<close>, the first thing
  \<open>analyzeXrayImage\<close> does is call the model with the single text part of the text-only
  branch, and it never fetches. In every other case the first thing it does is fetch
  \<open>imageUrl\<close>; with no image URL and the language \<open>english\<close> that is a fetch of
  the empty URL.
\<close>

theorem text_only_branch_iff:
  "(imageUrl = [] \<and> language \<noteq> ''english'' \<longrightarrow>
      (\<exists>rest. snd (analyzeXrayImage env imageUrl prompt language) =
         Generate [Text (''You are a medical professional. '' @ prompt
                         @ '' Provide the response in '' @ language @ '' language.'')] # rest) \<and>
      (\<forall>url. Fetch url \<notin> set (snd (analyzeXrayImage env imageUrl prompt language)))) \<and>
   (\<not> (imageUrl = [] \<and> language \<noteq> ''english'') \<longrightarrow>
      (\<exists>rest. snd (analyzeXrayImage env imageUrl prompt language) = Fetch imageUrl # rest)) \<and>
   (\<exists>rest. snd (analyzeXrayImage env [] prompt ''english'') = Fetch [] # rest)"
proof (intro conjI impI)
  assume t: "imageUrl = [] \<and> language \<noteq> ''english''"
  then have eq: "snd (analyzeXrayImage env imageUrl prompt language) =
      snd (retried env (textOnlyParts prompt language))"
    by (simp add: analyze_effects analyzeXrayImage_try_def)
  show "\<exists>rest. snd (analyzeXrayImage env imageUrl prompt language) =
         Generate [Text (''You are a medical professional. '' @ prompt
                         @ '' Provide the response in '' @ language @ '' language.'')] # rest"
    using retried_effects [of env "textOnlyParts prompt language"]
    by (simp add: eq textOnlyParts_def)
  show "\<forall>url. Fetch url \<notin> set (snd (analyzeXrayImage env imageUrl prompt language))"
    using retried_no_other_call [of _ env "textOnlyParts prompt language"]
    by (auto simp: eq)
next
  assume "\<not> (imageUrl = [] \<and> language \<noteq> ''english'')"
  then show "\<exists>rest. snd (analyzeXrayImage env imageUrl prompt language) = Fetch imageUrl # rest"
    by (simp add: analyze_effects try_image_path_starts_with_fetch)
next
  show "\<exists>rest. snd (analyzeXrayImage env [] prompt ''english'') = Fetch [] # rest"
    by (simp add: analyze_effects try_image_path_starts_with_fetch)
qed

lemma sample_blob_base64: "blobToBase64 sample_blob = Inr ''iVBORw0KGgo=''"
  by (simp add: sample_blob_def png_blob_def blobToBase64_def)

theorem text_only_branch_iff_witness:
  "(\<exists>rest. snd (analyzeXrayImage sample_env [] ''Translate this.'' ''marathi'') =
      Generate [Text ''You are a medical professional. Translate this. Provide the response in marathi language.'']
      # rest) \<and>
   (\<exists>rest. snd (analyzeXrayImage sample_env ''blob:xray'' ''Describe'' ''marathi'') =
      Fetch ''blob:xray'' # rest) \<and>
   (\<exists>rest. snd (analyzeXrayImage sample_env [] ''Describe'' ''english'') = Fetch [] # rest)"
proof -
  have a: "([]::string) = [] \<and> ''marathi'' \<noteq> ''english''"
    by simp
  have b: "\<not> (''blob:xray'' = [] \<and> ''marathi'' \<noteq> ''english'')"
    by simp
  note t1 = text_only_branch_iff [of "[]" "''marathi''" sample_env "''Translate this.''",
      THEN conjunct1, rule_format, OF a, THEN conjunct1]
  note t2 = text_only_branch_iff [of "''blob:xray''" "''marathi''" sample_env "''Describe''",
      THEN conjunct2, THEN conjunct1, rule_format, OF b]
  note t3 = text_only_branch_iff [of "[]" "''english''" sample_env "''Describe''",
      THEN conjunct2, THEN conjunct2]
  show ?thesis
    using t1 t2 t3 by simp
qed

lemma retried_Generate_only:
  "Generate ps \<in> set (snd (retried env parts)) \<Longrightarrow> ps = parts"
  using retried_no_other_call [of "Generate ps" env parts] by simp

text \<open>
  Claim C7. On the image path, once the fetch, \<open>response.blob()\<close> and the encoder have
  succeeded, the model is called right after the fetch, and every model call of the run
  has the same two parts: the instruction text, which ends with
  \<open>Provide the analysis in Hindi language.\<close> for \<open>hindi\<close>, with
  \<open>Provide the analysis in Marathi language.\<close> for \<open>marathi\<close> and with nothing for any
  other language, and the inline data whose \<open>mimeType\<close> is the \<open>type\<close> of the fetched
  blob and whose \<open>data\<close> is the encoder's output.
\<close>

theorem image_request_parts:
  assumes "\<not> (imageUrl = [] \<and> language \<noteq> ''english'')"
    and "fetch env imageUrl = Inr response" and "ok response"
    and "blob response = Inr imageBlob"
    and "blobToBase64 imageBlob = Inr base64Image"
    and "parts =
      [Text (''You are a medical professional analyzing an X-ray image. Please provide a detailed analysis based on the following prompt: ''
             @ prompt @ ''. ''
             @ (if language = ''hindi'' then ''Provide the analysis in Hindi language.''
                else if language = ''marathi'' then ''Provide the analysis in Marathi language.''
                else [])),
       InlineData (type imageBlob) base64Image]"
  shows "(\<exists>rest. snd (analyzeXrayImage env imageUrl prompt language) =
            Fetch imageUrl # Generate parts # rest) \<and>
         (\<forall>ps. Generate ps \<in> set (snd (analyzeXrayImage env imageUrl prompt language)) \<longrightarrow>
            ps = parts)"
proof -
  have p: "imageParts prompt language imageBlob base64Image = parts"
    by (simp add: imageParts_def languagePrompt_def assms(6))
  have eq: "snd (analyzeXrayImage env imageUrl prompt language) =
      Fetch imageUrl # snd (retried env parts)"
    using assms(1-5)
    by (auto simp: analyze_effects analyzeXrayImage_try_def p split: prod.splits)
  obtain rest where "snd (retried env parts) = Generate parts # rest"
    using retried_effects by blast
  moreover have "\<forall>ps. Generate ps \<in> set (snd (retried env parts)) \<longrightarrow> ps = parts"
    using retried_Generate_only by blast
  ultimately show ?thesis
    by (simp add: eq)
qed

theorem image_request_parts_witness:
  "\<exists>rest. snd (analyzeXrayImage sample_env ''blob:xray'' ''Describe'' ''hindi'') =
     Fetch ''blob:xray''
     # Generate
         [Text ''You are a medical professional analyzing an X-ray image. Please provide a detailed analysis based on the following prompt: Describe. Provide the analysis in Hindi language.'',
          InlineData ''image/png'' ''iVBORw0KGgo='']
     # rest"
proof -
  have h1: "\<not> (''blob:xray'' = [] \<and> ''hindi'' \<noteq> ''english'')"
    by simp
  have h2: "fetch sample_env ''blob:xray'' = Inr \<lparr>ok = True, blob = Inr sample_blob\<rparr>"
    by (simp add: sample_env_def)
  have h3: "ok \<lparr>ok = True, blob = Inr sample_blob\<rparr>"
    by simp
  have h4: "blob \<lparr>ok = True, blob = Inr sample_blob\<rparr> = Inr sample_blob"
    by simp
  have ty: "type sample_blob = ''image/png''"
    by (simp add: sample_blob_def png_blob_def)
  show ?thesis
    using image_request_parts [OF h1 h2 h3 h4 sample_blob_base64 refl, of "''Describe''",
        THEN conjunct1]
    by (simp add: ty)
qed

text \<open>
  Claim C8. On the image path, when the fetch resolves to a response that is not \<open>ok\<close>,
  \<open>analyzeXrayImage\<close> throws the Error \<open>Failed to fetch image\<close> and the fetch is
  its only effect: the model is not called.
\<close>

theorem fetch_failure_no_model_call:
  assumes "\<not> (imageUrl = [] \<and> language \<noteq> ''english'')"
    and "fetch env imageUrl = Inr response" and "\<not> ok response"
  shows "analyzeXrayImage env imageUrl prompt language =
           (Inl (Error ''Failed to fetch image''), [Fetch imageUrl])"
  using assms by (auto simp: analyzeXrayImage_def analyzeXrayImage_try_def)

theorem fetch_failure_no_model_call_witness:
  "fetch sample_env ''blob:gone'' = Inr \<lparr>ok = False, blob = Inr sample_blob\<rparr> \<and>
   analyzeXrayImage sample_env ''blob:gone'' ''Describe'' ''english'' =
     (Inl (Error ''Failed to fetch image''), [Fetch ''blob:gone''])"
proof -
  have h1: "\<not> (''blob:gone'' = [] \<and> ''english'' \<noteq> ''english'')"
    by simp
  have h2: "fetch sample_env ''blob:gone'' = Inr \<lparr>ok = False, blob = Inr sample_blob\<rparr>"
    by (simp add: sample_env_def)
  have h3: "\<not> ok \<lparr>ok = False, blob = Inr sample_blob\<rparr>"
    by simp
  show ?thesis
    using fetch_failure_no_model_call [OF h1 h2 h3, of "''Describe''"] h2 by simp
qed

section \<open>Error normalisation at the boundary\<close>

text \<open>
  The \<open>catch\<close> by cases: a value that is no Error gets the generic message, an Error
  that is not transient keeps its message, a transient Error gets the message of
  line 116.
\<close>

lemma analyzeXrayImage_catch_cases:
  "analyzeXrayImage_catch (NonError v) =
     Error ''An unexpected error occurred while analyzing the image''"
  "\<not> transient (Error m) \<Longrightarrow> analyzeXrayImage_catch (Error m) = Error m"
  "transient (Error m) \<Longrightarrow> analyzeXrayImage_catch (Error m) =
     Error ''The AI service is temporarily unavailable. We tried multiple times but the service is experiencing high load. Please try again in a few minutes.''"
  by simp_all

lemma retry_loop_outcome_not_transient:
  "outcome (retry_loop operation random maxRetries initialDelay i tr) = Inl e \<Longrightarrow> \<not> transient e"
proof (induction operation random maxRetries initialDelay i tr rule: retry_loop.induct)
  case (1 operation random maxRetries initialDelay retries tr)
  show ?case
  proof (cases "int retries < maxRetries \<and> (\<exists>e'. operation retries = Inl e' \<and> transient e')")
    case True
    then obtain e' where e': "int retries < maxRetries" "operation retries = Inl e'" "transient e'"
      by blast
    have "retry_loop operation random maxRetries initialDelay retries tr =
        retry_loop operation random maxRetries initialDelay (Suc retries)
          (tr @ [Attempt retries, Wait (waitTime initialDelay retries (random retries))])"
      using e' by (subst retry_loop.simps) simp
    with "1.prems" "1.IH" [OF e'] show ?thesis
      by simp
  next
    case False
    have "outcome (retry_loop operation random maxRetries initialDelay retries tr) =
        (if int retries < maxRetries then operation retries else Inl RetriesExhausted)"
      using False by (subst retry_loop.simps) (auto split: sum.splits)
    with "1.prems" False show ?thesis
      using not_transient_RetriesExhausted by (auto split: if_splits)
  qed
qed

text \<open>
  Nothing that comes out of the retrier is transient, so the first branch of the
  \<open>catch\<close> of \<open>analyzeXrayImage\<close> never applies to a failure of the model call.
\<close>

lemma retried_failure_passes_through:
  assumes "fst (retried env parts) = Inl e"
  shows "\<not> transient e"
  using assms retry_loop_outcome_not_transient [of "callModel env parts" "math_random env" 5 2000 0 "[]" e]
  by (simp add: retried_def retryWithBackoff_def Let_def)

lemma retried_exhausted:
  assumes "\<forall>i. \<exists>e. generateContent env parts i = Inl e \<and> transient e"
  shows "fst (retried env parts) = Inl RetriesExhausted"
proof -
  have "\<forall>j. int j < 5 \<longrightarrow> (\<exists>e. callModel env parts j = Inl e \<and> transient e)"
  proof (intro allI impI)
    fix j
    from assms obtain e where "generateContent env parts j = Inl e" "transient e"
      by blast
    then show "\<exists>e. callModel env parts j = Inl e \<and> transient e"
      by (simp add: callModel_def)
  qed
  then have "retryWithBackoff (callModel env parts) (math_random env) 5 2000 =
      \<lparr>outcome = Inl RetriesExhausted,
       trace = failed_rounds (math_random env) 2000 0 (nat 5)\<rparr>"
    by (rule retry_loop_all_transient)
  then show ?thesis
    by (simp add: retried_def)
qed

text \<open>
  Claim C4, at a failing input. The image is fetched and encoded and every call of the
  model throws an Error whose message has \<open>503\<close> and \<open>overloaded\<close>. The retrier gives
  up after five attempts with the Error of line 48; that message is not transient, so the
  \<open>catch\<close> passes it on, and the caller gets \<open>Maximum retries reached...\<close> and not
  the message of line 116.
\<close>

theorem exhausted_retries_message:
  "fst (analyzeXrayImage overloaded_env ''blob:xray'' ''Describe'' ''english'') =
     Inl (Error ''Maximum retries reached. The service is currently unavailable. Please try again later.'')"
proof -
  let ?parts = "imageParts ''Describe'' ''english'' sample_blob ''iVBORw0KGgo=''"
  have t: "transient (Error ''[503 Service Unavailable] The model is overloaded.'')"
    by simp
  have "\<forall>i. \<exists>e. generateContent overloaded_env ?parts i = Inl e \<and> transient e"
    using t by (simp add: overloaded_env_def sample_env_def del: transient.simps)
  then have r: "fst (retried overloaded_env ?parts) = Inl RetriesExhausted"
    by (rule retried_exhausted)
  have f: "fetch overloaded_env ''blob:xray'' = Inr \<lparr>ok = True, blob = Inr sample_blob\<rparr>"
    by (simp add: overloaded_env_def sample_env_def)
  have "fst (analyzeXrayImage_try overloaded_env ''blob:xray'' ''Describe'' ''english'') =
      Inl RetriesExhausted"
    using r by (auto simp: analyzeXrayImage_try_def f sample_blob_base64 split: prod.splits)
  then show ?thesis
    by (auto simp: analyzeXrayImage_def RetriesExhausted_def split: prod.splits sum.splits)
qed

end
